theory Spec2Isabelle
  imports Complex_Main "HOL-Library.Char_ord" "HOL-Library.List_Lexorder"
begin

section \<open>Data model (types.ts)\<close>

text \<open>
  The TypeScript interfaces become records. Record fields are global constants in HOL, so
  the fields of \<open>User\<close>, \<open>Workspace\<close> and \<open>Expense\<close> carry the prefixes \<open>u_\<close>, \<open>w_\<close> and
  \<open>e_\<close> (all three interfaces have an \<open>id\<close>). An optional field (\<open>password?\<close>,
  \<open>themeColor?\<close>, \<open>masterPassword?\<close>) and a nullable one (\<open>activeUserId\<close>) is an \<open>option\<close>.

  A JavaScript \<open>number\<close> is modelled as a \<open>real\<close>: the model covers the finite numbers and
  their order and leaves rounding and the non-finite values (NaN, Infinity) out. Where the
  source divides, the model says what happens at a zero divisor.
\<close>

datatype Category =
  HOUSING | TRANSPORTATION | FOOD | UTILITIES | ENTERTAINMENT | SHOPPING | HEALTH | OTHER

text \<open>The string value of each member of the enum.\<close>

fun category_value :: "Category \<Rightarrow> string" where
  "category_value HOUSING = ''Housing''"
| "category_value TRANSPORTATION = ''Transportation''"
| "category_value FOOD = ''Food & Dining''"
| "category_value UTILITIES = ''Utilities''"
| "category_value ENTERTAINMENT = ''Entertainment''"
| "category_value SHOPPING = ''Shopping''"
| "category_value HEALTH = ''Health''"
| "category_value OTHER = ''Other''"

datatype Role = Admin | Member

record User =
  u_id :: string
  u_name :: string
  u_email :: string
  u_password :: "string option"
  u_avatar :: string
  u_role :: Role
  u_themeColor :: "string option"

record Workspace =
  w_id :: string
  w_name :: string
  w_currency :: string
  w_budget :: real
  w_users :: "User list"

record Expense =
  e_id :: string
  e_amount :: real
  e_description :: string
  e_category :: Category
  e_date :: string
  e_userId :: string
  e_userName :: string
  e_userAvatar :: string
  e_workspaceId :: string

datatype View = dashboard | transactions | workspace | settings

record AppState =
  workspaces :: "Workspace list"
  users :: "User list"
  currentWorkspaceId :: string
  expenses :: "Expense list"
  activeUserId :: "string option"
  activeView :: View
  masterPassword :: "string option"

section \<open>Component state (App.tsx)\<close>

text \<open>
  The component holds the persisted \<open>AppState\<close> and its own \<open>useState\<close> cells. The cells
  that no modelled handler reads or writes (\<open>aiLoading\<close>, \<open>insights\<close>, \<open>editingUser\<close>) are
  left out.
\<close>

datatype AuthMode = signin | signup

datatype Direction = asc | desc

text \<open>\<open>keyof Expense\<close>: the nine fields of an expense.\<close>

datatype ExpenseKey =
  K_id | K_amount | K_description | K_category | K_date | K_userId | K_userName
  | K_userAvatar | K_workspaceId

record SortConfig =
  key :: ExpenseKey
  direction :: Direction

record LoginStep =
  ls_userId :: string
  ls_name :: string
  ls_themeColor :: "string option"

record NewExpense =
  ne_description :: string
  ne_amount :: string
  ne_category :: Category
  ne_aiInput :: string

record App =
  state :: AppState
  isAdding :: bool
  isEditingSelf :: bool
  authMode :: AuthMode
  authError :: "string option"
  loginStep :: "LoginStep option"
  selectedExpenseIds :: "string list"
  searchTerm :: string
  categoryFilter :: string
  sortConfig :: SortConfig
  newExpense :: NewExpense

definition DEFAULT_THEME :: string where
  "DEFAULT_THEME = ''#2563eb''"

definition DEFAULT_USERS :: "User list" where
  "DEFAULT_USERS =
     [\<lparr>u_id = ''u1'', u_name = ''System Admin'', u_email = ''admin@smartspend.com'',
       u_password = Some ''admin'', u_avatar = ''https://picsum.photos/seed/admin/120'',
       u_role = Admin, u_themeColor = Some ''#2563eb''\<rparr>]"

definition DEFAULT_WORKSPACE :: Workspace where
  "DEFAULT_WORKSPACE =
     \<lparr>w_id = ''w1'', w_name = ''Main Workspace'', w_currency = ''$'', w_budget = 5000,
      w_users = [hd DEFAULT_USERS]\<rparr>"

text \<open>The state of a first start: nothing saved under the storage key.\<close>

definition initialState :: AppState where
  "initialState =
     \<lparr>workspaces = [DEFAULT_WORKSPACE], users = DEFAULT_USERS, currentWorkspaceId = ''w1'',
      expenses = [], activeUserId = None, activeView = dashboard,
      masterPassword = Some ''admin''\<rparr>"

definition initialApp :: App where
  "initialApp =
     \<lparr>state = initialState, isAdding = False, isEditingSelf = False, authMode = signin,
      authError = None, loginStep = None, selectedExpenseIds = [], searchTerm = [],
      categoryFilter = ''All'', sortConfig = \<lparr>key = K_date, direction = desc\<rparr>,
      newExpense = \<lparr>ne_description = [], ne_amount = [], ne_category = OTHER,
                     ne_aiInput = []\<rparr>\<rparr>"

section \<open>Derived values\<close>

text \<open>
  \<open>state.workspaces.find(w => w.id === state.currentWorkspaceId) || state.workspaces[0]\<close>.
  With no workspace at all the value is \<open>undefined\<close>, here \<open>None\<close>: every read of a
  property of it throws.
\<close>

definition currentWorkspace :: "AppState \<Rightarrow> Workspace option" where
  "currentWorkspace s =
     (case find (\<lambda>w. w_id w = currentWorkspaceId s) (workspaces s) of
        Some w \<Rightarrow> Some w
      | None \<Rightarrow> (case workspaces s of [] \<Rightarrow> None | w # _ \<Rightarrow> Some w))"

text \<open>\<open>state.users.find(u => u.id === state.activeUserId) || null\<close>\<close>

definition activeUser :: "AppState \<Rightarrow> User option" where
  "activeUser s =
     (case activeUserId s of
        None \<Rightarrow> None
      | Some uid \<Rightarrow> find (\<lambda>u. u_id u = uid) (users s))"

text \<open>\<open>activeUser?.role === 'Admin'\<close>\<close>

definition isAdmin :: "AppState \<Rightarrow> bool" where
  "isAdmin s = (case activeUser s of None \<Rightarrow> False | Some u \<Rightarrow> u_role u = Admin)"

section \<open>Runtime functions the component calls\<close>

text \<open>
  \<open>String.prototype.toLowerCase\<close> is the runtime's; the handlers and queries that call it
  take it as their first argument. On ASCII text it lowers the letters A to Z and keeps
  every other character, which is what \<open>toLowerCase_ascii\<close> computes.
\<close>

definition toLowerCase_char :: "char \<Rightarrow> char" where
  "toLowerCase_char c =
     (case map_of (zip ''ABCDEFGHIJKLMNOPQRSTUVWXYZ'' ''abcdefghijklmnopqrstuvwxyz'') c of
        None \<Rightarrow> c
      | Some l \<Rightarrow> l)"

definition toLowerCase_ascii :: "string \<Rightarrow> string" where
  "toLowerCase_ascii s = map toLowerCase_char s"

text \<open>\<open>String.prototype.includes\<close>: \<open>t\<close> occurs in \<open>s\<close> as a contiguous substring.\<close>

fun startsWith :: "string \<Rightarrow> string \<Rightarrow> bool" where
  "startsWith s [] = True"
| "startsWith [] (c # t) = False"
| "startsWith (a # s) (c # t) = (a = c \<and> startsWith s t)"

fun includes_str :: "string \<Rightarrow> string \<Rightarrow> bool" where
  "includes_str [] t = (t = [])"
| "includes_str (a # s) t = (startsWith (a # s) t \<or> includes_str s t)"

text \<open>
  \<open>Array.prototype.sort(compareFn)\<close>. The language standard requires the sort to be stable
  and, for a consistent comparator, its result to be ordered by the comparator; that
  determines the result, which is the one of this insertion sort: an element goes in
  front of the first later element that it does not compare greater than.
\<close>

fun insert_sorted :: "('a \<Rightarrow> 'a \<Rightarrow> int) \<Rightarrow> 'a \<Rightarrow> 'a list \<Rightarrow> 'a list" where
  "insert_sorted cmp x [] = [x]"
| "insert_sorted cmp x (y # ys) =
     (if cmp x y \<le> 0 then x # y # ys else y # insert_sorted cmp x ys)"

fun array_sort :: "('a \<Rightarrow> 'a \<Rightarrow> int) \<Rightarrow> 'a list \<Rightarrow> 'a list" where
  "array_sort cmp [] = []"
| "array_sort cmp (x # xs) = insert_sorted cmp x (array_sort cmp xs)"

text \<open>
  The value of a field of an expense is a string or a number; \<open><\<close> on two strings is the
  lexicographic order of their characters, on two numbers the numeric order. The two
  operands of the comparator are the same field of two expenses, so a string is never
  compared with a number.
\<close>

datatype JSValue = JString string | JNumber real

fun field :: "ExpenseKey \<Rightarrow> Expense \<Rightarrow> JSValue" where
  "field K_id e = JString (e_id e)"
| "field K_amount e = JNumber (e_amount e)"
| "field K_description e = JString (e_description e)"
| "field K_category e = JString (category_value (e_category e))"
| "field K_date e = JString (e_date e)"
| "field K_userId e = JString (e_userId e)"
| "field K_userName e = JString (e_userName e)"
| "field K_userAvatar e = JString (e_userAvatar e)"
| "field K_workspaceId e = JString (e_workspaceId e)"

fun js_less :: "JSValue \<Rightarrow> JSValue \<Rightarrow> bool" where
  "js_less (JString s) (JString t) = (s < t)"
| "js_less (JNumber x) (JNumber y) = (x < y)"
| "js_less _ _ = False"

section \<open>Ledger queries\<close>

text \<open>\<open>state.expenses.filter(e => e.workspaceId === currentWorkspace.id)\<close>\<close>

definition workspaceExpenses :: "AppState \<Rightarrow> Expense list option" where
  "workspaceExpenses s =
     (case currentWorkspace s of
        None \<Rightarrow> None
      | Some cw \<Rightarrow> Some (filter (\<lambda>e. e_workspaceId e = w_id cw) (expenses s)))"

text \<open>
  The comparator passed to \<open>result.sort\<close> in \<open>filteredExpenses\<close>. Every field of an
  expense is required, so the \<open>undefined\<close> test of the source never fires.
\<close>

definition compareExpenses :: "SortConfig \<Rightarrow> Expense \<Rightarrow> Expense \<Rightarrow> int" where
  "compareExpenses cfg a b =
     (let aValue = field (key cfg) a; bValue = field (key cfg) b in
      if js_less aValue bValue then (if direction cfg = asc then - 1 else 1)
      else if js_less bValue aValue then (if direction cfg = asc then 1 else - 1)
      else 0)"

text \<open>The statement \<open>result.sort((a, b) => ...)\<close> of \<open>filteredExpenses\<close>, on its own.\<close>

definition sortBy :: "Expense list \<Rightarrow> ExpenseKey \<Rightarrow> Direction \<Rightarrow> Expense list" where
  "sortBy result k d = array_sort (compareExpenses \<lparr>key = k, direction = d\<rparr>) result"

definition matchesSearch :: "(string \<Rightarrow> string) \<Rightarrow> string \<Rightarrow> Expense \<Rightarrow> bool" where
  "matchesSearch toLowerCase term ex =
     (includes_str (toLowerCase (e_description ex)) (toLowerCase term)
      \<or> includes_str (toLowerCase (e_userName ex)) (toLowerCase term))"

definition matchesCategory :: "string \<Rightarrow> Expense \<Rightarrow> bool" where
  "matchesCategory cf ex = (cf = ''All'' \<or> category_value (e_category ex) = cf)"

definition filteredExpenses :: "(string \<Rightarrow> string) \<Rightarrow> App \<Rightarrow> Expense list option" where
  "filteredExpenses toLowerCase app =
     (case workspaceExpenses (state app) of
        None \<Rightarrow> None
      | Some wes \<Rightarrow>
          Some (sortBy
                  (filter (\<lambda>ex. matchesSearch toLowerCase (searchTerm app) ex
                                 \<and> matchesCategory (categoryFilter app) ex)
                          wes)
                  (key (sortConfig app)) (direction (sortConfig app))))"

text \<open>\<open>workspaceExpenses.reduce((acc, curr) => acc + curr.amount, 0)\<close>\<close>

definition totalSpent :: "Expense list \<Rightarrow> real" where
  "totalSpent wes = foldl (\<lambda>acc curr. acc + e_amount curr) 0 wes"

definition budgetRemaining :: "Workspace \<Rightarrow> Expense list \<Rightarrow> real" where
  "budgetRemaining cw wes = w_budget cw - totalSpent wes"

text \<open>
  \<open>(totalSpent / currentWorkspace.budget) * 100\<close>. A division by zero does not throw in
  JavaScript: the quotient is \<open>Infinity\<close>, \<open>-Infinity\<close> or \<open>NaN\<close>, none of them a finite
  number; that outcome is \<open>None\<close>. The budget and the amounts are finite numbers here. In the
  code the budget can also be \<open>NaN\<close> (what \<open>parseFloat\<close> reads from a cleared field), and the
  percentage is \<open>NaN\<close> then as well: a value \<open>Some\<close> of this function says what the code
  computes from finite numbers, not that every budget other than zero gives a finite
  percentage.
\<close>

definition spendingPercentage :: "Workspace \<Rightarrow> Expense list \<Rightarrow> real option" where
  "spendingPercentage cw wes =
     (if w_budget cw = 0 then None else Some ((totalSpent wes / w_budget cw) * 100))"

section \<open>Permission helper\<close>

text \<open>
  The callback closes over \<open>activeUser\<close> and \<open>currentWorkspace\<close> as the render computed them;
  they are its first two arguments here. With an active user and an undefined
  \<open>currentWorkspace\<close> the read of \<open>currentWorkspace.users\<close> throws: the result is \<open>None\<close>.
\<close>

definition canModifyTransaction ::
  "User option \<Rightarrow> Workspace option \<Rightarrow> Expense \<Rightarrow> bool option" where
  "canModifyTransaction au cw expense =
     (case au of
        None \<Rightarrow> Some False
      | Some u \<Rightarrow>
          (case cw of
             None \<Rightarrow> None
           | Some w \<Rightarrow> Some (list_ex (\<lambda>m. u_id m = u_id u) (w_users w))))"

section \<open>Handlers\<close>

text \<open>
  A handler takes the component state and returns the state after it, with what the user
  was shown: no dialog, the text of an \<open>alert\<close>, or nothing because a \<open>TypeError\<close> was thrown
  (a property of an undefined \<open>currentWorkspace\<close> was read; no update is issued then).
  Inline error banners are the \<open>authError\<close> cell of the state.

  One user acts at a time and every handler runs to its end before the next event, so the
  \<open>state\<close> a handler closed over and the \<open>prev\<close> its updater receives are the same value.
  The answer to a \<open>confirm\<close> dialog, the clock (\<open>Date.now()\<close>, today's ISO date),
  \<open>parseFloat\<close> and \<open>toLowerCase\<close> are arguments of the handlers that use them.
\<close>

datatype Effect = NoAlert | Alert string | TypeError

text \<open>\<open>Number.prototype.toString\<close> of a natural number, as the template literals use it.\<close>

definition digit_char :: "nat \<Rightarrow> char" where
  "digit_char n = ''0123456789'' ! n"

fun toString_nat :: "nat \<Rightarrow> string" where
  "toString_nat n =
     (if n < 10 then [digit_char n] else toString_nat (n div 10) @ [digit_char (n mod 10)])"

declare toString_nat.simps [simp del]

definition handleUpdateTheme :: "string \<Rightarrow> App \<Rightarrow> Effect \<times> App" where
  "handleUpdateTheme color app =
     (let prev = state app in
      if activeUserId prev = None \<or> activeUserId prev = Some [] then (NoAlert, app)
      else (NoAlert,
            app\<lparr>state := prev\<lparr>users :=
                    map (\<lambda>u. if Some (u_id u) = activeUserId prev
                              then u\<lparr>u_themeColor := Some color\<rparr> else u)
                        (users prev)\<rparr>\<rparr>))"

record SignUpForm =
  su_name :: string
  su_email :: string
  su_password :: string
  su_confirmPassword :: string

text \<open>
  \<open>workspaces.map((ws, i) => i === 0 ? {...ws, users: [...ws.users, newUser]} : ws)\<close>:
  the first workspace gets the user, the others are kept.
\<close>

definition addToFirstWorkspace :: "User \<Rightarrow> Workspace list \<Rightarrow> Workspace list" where
  "addToFirstWorkspace newUser wss =
     (case wss of
        [] \<Rightarrow> []
      | ws # rest \<Rightarrow> ws\<lparr>w_users := w_users ws @ [newUser]\<rparr> # rest)"

definition handleSignUp ::
  "(string \<Rightarrow> string) \<Rightarrow> nat \<Rightarrow> SignUpForm \<Rightarrow> App \<Rightarrow> Effect \<times> App" where
  "handleSignUp toLowerCase now form app =
     (let prev = state app in
      if list_ex (\<lambda>u. toLowerCase (u_email u) = toLowerCase (su_email form)) (users prev)
      then (NoAlert, app\<lparr>authError := Some ''This email is already registered.''\<rparr>)
      else if su_password form \<noteq> su_confirmPassword form
      then (NoAlert, app\<lparr>authError := Some ''Passwords do not match.''\<rparr>)
      else
        (let newUser =
               \<lparr>u_id = ''u-'' @ toString_nat now, u_name = su_name form,
                u_email = su_email form, u_password = Some (su_password form),
                u_avatar = ''https://picsum.photos/seed/'' @ su_email form @ ''/120'',
                u_role = Member, u_themeColor = Some DEFAULT_THEME\<rparr>
         in (NoAlert,
             app\<lparr>authError := None,
                 state := prev\<lparr>users := users prev @ [newUser],
                               activeUserId := Some (u_id newUser),
                               workspaces := addToFirstWorkspace newUser (workspaces prev)\<rparr>\<rparr>)))"

definition handleSignIn :: "string \<Rightarrow> App \<Rightarrow> Effect \<times> App" where
  "handleSignIn password app =
     (case loginStep app of
        None \<Rightarrow> (NoAlert, app\<lparr>authError := None\<rparr>)
      | Some ls \<Rightarrow>
          (case find (\<lambda>u. u_id u = ls_userId ls) (users (state app)) of
             None \<Rightarrow> (NoAlert, app\<lparr>authError := Some ''Incorrect password.''\<rparr>)
           | Some user \<Rightarrow>
               if u_password user = Some password
               then (NoAlert,
                     app\<lparr>authError := None, loginStep := None,
                         state := (state app)\<lparr>activeUserId := Some (u_id user)\<rparr>\<rparr>)
               else (NoAlert, app\<lparr>authError := Some ''Incorrect password.''\<rparr>)))"

definition handleLogout :: "App \<Rightarrow> Effect \<times> App" where
  "handleLogout app =
     (NoAlert,
      app\<lparr>state := (state app)\<lparr>activeUserId := None\<rparr>, loginStep := None,
          authMode := signin\<rparr>)"

record ProfileForm =
  pf_name :: string
  pf_email :: string
  pf_avatar :: string

definition handleSaveSelfProfile :: "ProfileForm \<Rightarrow> App \<Rightarrow> Effect \<times> App" where
  "handleSaveSelfProfile form app =
     (let prev = state app in
      case activeUser prev of
        None \<Rightarrow> (NoAlert, app)
      | Some au \<Rightarrow>
          (let updated = au\<lparr>u_name := pf_name form, u_email := pf_email form,
                            u_avatar := pf_avatar form\<rparr>
           in (Alert ''Profile Updated Successfully'',
               app\<lparr>isEditingSelf := False,
                   state := prev\<lparr>
                     users := map (\<lambda>u. if u_id u = u_id au then updated else u) (users prev),
                     expenses :=
                       map (\<lambda>ex. if e_userId ex = u_id au
                                  then ex\<lparr>e_userName := u_name updated,
                                          e_userAvatar := u_avatar updated\<rparr>
                                  else ex)
                           (expenses prev),
                     workspaces :=
                       map (\<lambda>ws. ws\<lparr>w_users :=
                                  map (\<lambda>u. if u_id u = u_id au then updated else u)
                                      (w_users ws)\<rparr>)
                           (workspaces prev)\<rparr>\<rparr>)))"

definition handleDeleteUser :: "bool \<Rightarrow> string \<Rightarrow> App \<Rightarrow> Effect \<times> App" where
  "handleDeleteUser confirm userId app =
     (let prev = state app in
      if \<not> isAdmin prev then (NoAlert, app)
      else if Some userId = activeUserId prev
      then (Alert ''Safety Lock: You cannot delete your own active profile.'', app)
      else if confirm
      then (NoAlert,
            app\<lparr>state := prev\<lparr>
                  users := filter (\<lambda>u. u_id u \<noteq> userId) (users prev),
                  workspaces :=
                    map (\<lambda>ws. ws\<lparr>w_users := filter (\<lambda>u. u_id u \<noteq> userId) (w_users ws)\<rparr>)
                        (workspaces prev)\<rparr>\<rparr>)
      else (NoAlert, app))"

definition toggleWorkspaceMember :: "string \<Rightarrow> App \<Rightarrow> Effect \<times> App" where
  "toggleWorkspaceMember userId app =
     (let prev = state app in
      if \<not> isAdmin prev then (NoAlert, app)
      else
        case find (\<lambda>u. u_id u = userId) (users prev) of
          None \<Rightarrow> (NoAlert, app)
        | Some user \<Rightarrow>
            (case find (\<lambda>w. w_id w = currentWorkspaceId prev) (workspaces prev) of
               None \<Rightarrow> (NoAlert, app)
             | Some ws \<Rightarrow>
                 (let isMember = list_ex (\<lambda>u. u_id u = userId) (w_users ws);
                      updatedUsers =
                        (if isMember then filter (\<lambda>u. u_id u \<noteq> userId) (w_users ws)
                         else w_users ws @ [user])
                  in if length updatedUsers = 0
                     then (Alert ''Action Blocked: A workspace requires at least one participating member.'',
                           app)
                     else (NoAlert,
                           app\<lparr>state := prev\<lparr>workspaces :=
                                   map (\<lambda>w. if w_id w = currentWorkspaceId prev
                                             then w\<lparr>w_users := updatedUsers\<rparr> else w)
                                       (workspaces prev)\<rparr>\<rparr>))))"

definition emptyNewExpense :: NewExpense where
  "emptyNewExpense =
     \<lparr>ne_description = [], ne_amount = [], ne_category = OTHER, ne_aiInput = []\<rparr>"

definition handleAddExpense ::
  "(string \<Rightarrow> real) \<Rightarrow> nat \<Rightarrow> string \<Rightarrow> App \<Rightarrow> Effect \<times> App" where
  "handleAddExpense parseFloat now today app =
     (let prev = state app; ne = newExpense app in
      if ne_description ne = [] \<or> ne_amount ne = [] then (NoAlert, app)
      else
        case activeUser prev of
          None \<Rightarrow> (NoAlert, app)
        | Some au \<Rightarrow>
            (case currentWorkspace prev of
               None \<Rightarrow> (TypeError, app)
             | Some cw \<Rightarrow>
                 (let expense =
                        \<lparr>e_id = toString_nat now, e_amount = parseFloat (ne_amount ne),
                         e_description = ne_description ne, e_category = ne_category ne,
                         e_date = today, e_userId = u_id au, e_userName = u_name au,
                         e_userAvatar = u_avatar au, e_workspaceId = w_id cw\<rparr>
                  in (NoAlert,
                      app\<lparr>state := prev\<lparr>expenses := expense # expenses prev\<rparr>,
                          newExpense := emptyNewExpense, isAdding := False\<rparr>))))"

definition toggleExpenseSelection :: "string \<Rightarrow> App \<Rightarrow> Effect \<times> App" where
  "toggleExpenseSelection eid app =
     (let prev = selectedExpenseIds app in
      (NoAlert,
       app\<lparr>selectedExpenseIds :=
             (if eid \<in> set prev then filter (\<lambda>i. i \<noteq> eid) prev else prev @ [eid])\<rparr>))"

definition toggleAllExpenses :: "(string \<Rightarrow> string) \<Rightarrow> App \<Rightarrow> Effect \<times> App" where
  "toggleAllExpenses toLowerCase app =
     (case filteredExpenses toLowerCase app of
        None \<Rightarrow> (TypeError, app)
      | Some fes \<Rightarrow>
          if length (selectedExpenseIds app) = length fes
          then (NoAlert, app\<lparr>selectedExpenseIds := []\<rparr>)
          else (NoAlert, app\<lparr>selectedExpenseIds := map e_id fes\<rparr>))"

definition deleteExpense :: "bool \<Rightarrow> Expense \<Rightarrow> App \<Rightarrow> Effect \<times> App" where
  "deleteExpense confirm expense app =
     (let prev = state app in
      case canModifyTransaction (activeUser prev) (currentWorkspace prev) expense of
        None \<Rightarrow> (TypeError, app)
      | Some False \<Rightarrow>
          (Alert ''Permission Error: You are not a registered member of this workspace.'', app)
      | Some True \<Rightarrow>
          if confirm
          then (NoAlert,
                app\<lparr>state := prev\<lparr>expenses :=
                        filter (\<lambda>e. e_id e \<noteq> e_id expense) (expenses prev)\<rparr>,
                    selectedExpenseIds :=
                      filter (\<lambda>eid. eid \<noteq> e_id expense) (selectedExpenseIds app)\<rparr>)
          else (NoAlert, app))"

definition deleteSelectedExpenses :: "bool \<Rightarrow> App \<Rightarrow> Effect \<times> App" where
  "deleteSelectedExpenses confirm app =
     (let prev = state app in
      if confirm
      then (NoAlert,
            app\<lparr>state := prev\<lparr>expenses :=
                    filter (\<lambda>e. e_id e \<notin> set (selectedExpenseIds app)) (expenses prev)\<rparr>,
                selectedExpenseIds := []\<rparr>)
      else (NoAlert, app))"

definition requestSort :: "ExpenseKey \<Rightarrow> App \<Rightarrow> Effect \<times> App" where
  "requestSort k app =
     (NoAlert,
      app\<lparr>sortConfig :=
            \<lparr>key = k,
             direction = (if key (sortConfig app) = k \<and> direction (sortConfig app) = asc
                          then desc else asc)\<rparr>\<rparr>)"

text \<open>
  The two inline \<open>onChange\<close> handlers of the "Governance Config" section of
  \<open>renderSettings\<close>. They have no name in the source. The section is rendered under
  \<open>isAdmin\<close> only; the handlers themselves test nothing.
\<close>

definition onCurrencyChange :: "string \<Rightarrow> App \<Rightarrow> Effect \<times> App" where
  "onCurrencyChange v app =
     (let prev = state app in
      case currentWorkspace prev of
        None \<Rightarrow> (TypeError, app)
      | Some cw \<Rightarrow>
          (NoAlert,
           app\<lparr>state := prev\<lparr>workspaces :=
                   map (\<lambda>w. if w_id w = w_id cw then w\<lparr>w_currency := v\<rparr> else w)
                       (workspaces prev)\<rparr>\<rparr>))"

definition onBudgetChange :: "(string \<Rightarrow> real) \<Rightarrow> string \<Rightarrow> App \<Rightarrow> Effect \<times> App" where
  "onBudgetChange parseFloat v app =
     (let prev = state app in
      case currentWorkspace prev of
        None \<Rightarrow> (TypeError, app)
      | Some cw \<Rightarrow>
          (NoAlert,
           app\<lparr>state := prev\<lparr>workspaces :=
                   map (\<lambda>w. if w_id w = w_id cw then w\<lparr>w_budget := parseFloat v\<rparr> else w)
                       (workspaces prev)\<rparr>\<rparr>))"

section \<open>Decimal literals\<close>

text \<open>
  \<open>parseFloat\<close> is the runtime's. On a plain decimal literal (an optional minus sign,
  digits, an optional fraction) it returns the number the literal denotes, which is what
  \<open>parseDecimal\<close> computes; \<open>isDecimal\<close> recognises these literals. The number inputs of the
  forms deliver them. They also deliver the empty text, which \<open>parseFloat\<close> reads as \<open>NaN\<close>,
  and literals with an exponent; neither is a decimal literal in this sense.
\<close>

definition isDigit :: "char \<Rightarrow> bool" where
  "isDigit c = (CHR ''0'' \<le> c \<and> c \<le> CHR ''9'')"

definition digits_value :: "string \<Rightarrow> nat" where
  "digits_value ds = foldl (\<lambda>acc c. 10 * acc + (of_char c - of_char CHR ''0'')) 0 ds"

definition isUnsignedDecimal :: "string \<Rightarrow> bool" where
  "isUnsignedDecimal s =
     (let ip = takeWhile isDigit s; rest = dropWhile isDigit s in
      ip \<noteq> [] \<and>
      (case rest of
         [] \<Rightarrow> True
       | c # f \<Rightarrow> c = CHR ''.'' \<and> f \<noteq> [] \<and> list_all isDigit f))"

definition isDecimal :: "string \<Rightarrow> bool" where
  "isDecimal s =
     (case s of
        [] \<Rightarrow> False
      | c # r \<Rightarrow> if c = CHR ''-'' then isUnsignedDecimal r else isUnsignedDecimal s)"

definition unsignedDecimal :: "string \<Rightarrow> real" where
  "unsignedDecimal s =
     (let ip = takeWhile isDigit s;
          fp = (case dropWhile isDigit s of [] \<Rightarrow> [] | c # f \<Rightarrow> takeWhile isDigit f)
      in real (digits_value ip) + real (digits_value fp) / 10 ^ length fp)"

definition parseDecimal :: "string \<Rightarrow> real" where
  "parseDecimal s =
     (case s of
        [] \<Rightarrow> 0
      | c # r \<Rightarrow> if c = CHR ''-'' then - unsignedDecimal r else unsignedDecimal s)"

section \<open>The component as a state machine\<close>

text \<open>
  An action is one event the rendered page can deliver; it carries what the user typed or
  answered and what the clock read. \<open>available\<close> says when the control that delivers it is
  on the page: without an active user the page is the sign-in screen; with one it is the
  navigation, the view selected by \<open>activeView\<close> and, when \<open>isAdding\<close>, the expense dialog;
  nothing is rendered when \<open>currentWorkspace\<close> is undefined. Fields marked \<open>required\<close> are
  not empty. The actions are a part of what the page can do, enough for the runs below:
  the budget field delivers decimal literals only (not the empty text of a cleared field),
  the amount field decimal literals or the empty text, and text is lowered as ASCII. On
  ASCII text every run of the actions is a run of the page. Two handlers are not actions
  here: \<open>handleAiCategorize\<close>, which fills the draft expense from the answer of the
  text-generation service, and \<open>handleRevealPassword\<close>, which shows dialogs and changes no
  state.
\<close>

datatype Action =
    ShowSignUp
  | ShowSignIn
  | PickProfile User
  | SwitchProfile
  | SubmitSignUp nat SignUpForm
  | SubmitSignIn string
  | Logout
  | Navigate View
  | OpenAdd
  | CloseAdd
  | SetDescription string
  | SetAmount string
  | SetCategory Category
  | ConfirmPurchase nat string
  | SetSearch string
  | SetCategoryFilter string
  | RequestSort ExpenseKey
  | ToggleSelection string
  | ToggleAll
  | DeleteRow bool Expense
  | BulkDelete bool
  | ToggleMember string
  | ToggleEditSelf
  | SaveSelfProfile ProfileForm
  | UpdateTheme string
  | DeleteUser bool string
  | LoginAs User
  | ChangeCurrency string
  | ChangeBudget string

definition THEME_OPTIONS :: "string list" where
  "THEME_OPTIONS =
     [''#2563eb'', ''#dc2626'', ''#16a34a'', ''#d97706'', ''#9333ea'', ''#0891b2'',
      ''#db2777'', ''#4b5563'']"

definition rendered :: "App \<Rightarrow> bool" where
  "rendered app = (currentWorkspace (state app) \<noteq> None)"

definition authScreen :: "App \<Rightarrow> bool" where
  "authScreen app = (rendered app \<and> activeUser (state app) = None)"

definition mainScreen :: "App \<Rightarrow> bool" where
  "mainScreen app = (rendered app \<and> activeUser (state app) \<noteq> None)"

definition viewShown :: "View \<Rightarrow> App \<Rightarrow> bool" where
  "viewShown v app = (mainScreen app \<and> activeView (state app) = v)"

definition loginStepOf :: "User \<Rightarrow> LoginStep" where
  "loginStepOf user =
     \<lparr>ls_userId = u_id user, ls_name = u_name user, ls_themeColor = u_themeColor user\<rparr>"

fun available :: "Action \<Rightarrow> App \<Rightarrow> bool" where
  "available ShowSignUp app =
     (authScreen app \<and> authMode app = signin \<and> loginStep app = None)"
| "available ShowSignIn app = (authScreen app \<and> authMode app = signup)"
| "available (PickProfile user) app =
     (authScreen app \<and> authMode app = signin \<and> loginStep app = None
      \<and> user \<in> set (users (state app)))"
| "available SwitchProfile app =
     (authScreen app \<and> authMode app = signin \<and> loginStep app \<noteq> None)"
| "available (SubmitSignUp now form) app =
     (authScreen app \<and> authMode app = signup \<and> su_name form \<noteq> [] \<and> su_email form \<noteq> []
      \<and> su_password form \<noteq> [] \<and> su_confirmPassword form \<noteq> [])"
| "available (SubmitSignIn password) app =
     (authScreen app \<and> authMode app = signin \<and> loginStep app \<noteq> None \<and> password \<noteq> [])"
| "available Logout app = mainScreen app"
| "available (Navigate v) app = mainScreen app"
| "available OpenAdd app = viewShown transactions app"
| "available CloseAdd app = (mainScreen app \<and> isAdding app)"
| "available (SetDescription d) app = (mainScreen app \<and> isAdding app)"
| "available (SetAmount a) app = (mainScreen app \<and> isAdding app \<and> (a = [] \<or> isDecimal a))"
| "available (SetCategory c) app = (mainScreen app \<and> isAdding app)"
| "available (ConfirmPurchase now today) app = (mainScreen app \<and> isAdding app)"
| "available (SetSearch t) app = viewShown transactions app"
| "available (SetCategoryFilter cf) app =
     (viewShown transactions app
      \<and> (cf = ''All'' \<or> cf \<in> category_value ` {HOUSING, TRANSPORTATION, FOOD, UTILITIES,
                                               ENTERTAINMENT, SHOPPING, HEALTH, OTHER}))"
| "available (RequestSort k) app =
     (viewShown transactions app \<and> k \<in> {K_date, K_userName, K_category, K_description, K_amount})"
| "available (ToggleSelection eid) app =
     (viewShown transactions app
      \<and> (case filteredExpenses toLowerCase_ascii app of
           None \<Rightarrow> False
         | Some fes \<Rightarrow> eid \<in> e_id ` set fes))"
| "available ToggleAll app = viewShown transactions app"
| "available (DeleteRow confirm expense) app =
     (viewShown transactions app
      \<and> (case filteredExpenses toLowerCase_ascii app of
           None \<Rightarrow> False
         | Some fes \<Rightarrow> expense \<in> set fes))"
| "available (BulkDelete confirm) app =
     (viewShown transactions app \<and> selectedExpenseIds app \<noteq> [])"
| "available (ToggleMember userId) app =
     (viewShown workspace app \<and> isAdmin (state app) \<and> userId \<in> u_id ` set (users (state app)))"
| "available ToggleEditSelf app = viewShown settings app"
| "available (SaveSelfProfile form) app =
     (viewShown settings app \<and> isEditingSelf app \<and> pf_name form \<noteq> [] \<and> pf_email form \<noteq> []
      \<and> pf_avatar form \<noteq> [])"
| "available (UpdateTheme color) app = (viewShown settings app \<and> color \<in> set THEME_OPTIONS)"
| "available (DeleteUser confirm userId) app =
     (viewShown settings app \<and> isAdmin (state app)
      \<and> userId \<in> u_id ` set (users (state app)) \<and> activeUserId (state app) \<noteq> Some userId)"
| "available (LoginAs user) app =
     (viewShown settings app \<and> isAdmin (state app) \<and> user \<in> set (users (state app))
      \<and> activeUserId (state app) \<noteq> Some (u_id user))"
| "available (ChangeCurrency v) app = (viewShown settings app \<and> isAdmin (state app))"
| "available (ChangeBudget v) app =
     (viewShown settings app \<and> isAdmin (state app) \<and> isDecimal v)"

fun perform :: "Action \<Rightarrow> App \<Rightarrow> App" where
  "perform ShowSignUp app = app\<lparr>authMode := signup, authError := None\<rparr>"
| "perform ShowSignIn app = app\<lparr>authMode := signin, authError := None\<rparr>"
| "perform (PickProfile user) app = app\<lparr>loginStep := Some (loginStepOf user)\<rparr>"
| "perform SwitchProfile app = app\<lparr>loginStep := None\<rparr>"
| "perform (SubmitSignUp now form) app = snd (handleSignUp toLowerCase_ascii now form app)"
| "perform (SubmitSignIn password) app = snd (handleSignIn password app)"
| "perform Logout app = snd (handleLogout app)"
| "perform (Navigate v) app = app\<lparr>state := (state app)\<lparr>activeView := v\<rparr>\<rparr>"
| "perform OpenAdd app = app\<lparr>isAdding := True\<rparr>"
| "perform CloseAdd app = app\<lparr>isAdding := False\<rparr>"
| "perform (SetDescription d) app =
     app\<lparr>newExpense := (newExpense app)\<lparr>ne_description := d\<rparr>\<rparr>"
| "perform (SetAmount a) app = app\<lparr>newExpense := (newExpense app)\<lparr>ne_amount := a\<rparr>\<rparr>"
| "perform (SetCategory c) app = app\<lparr>newExpense := (newExpense app)\<lparr>ne_category := c\<rparr>\<rparr>"
| "perform (ConfirmPurchase now today) app = snd (handleAddExpense parseDecimal now today app)"
| "perform (SetSearch t) app = app\<lparr>searchTerm := t\<rparr>"
| "perform (SetCategoryFilter cf) app = app\<lparr>categoryFilter := cf\<rparr>"
| "perform (RequestSort k) app = snd (requestSort k app)"
| "perform (ToggleSelection eid) app = snd (toggleExpenseSelection eid app)"
| "perform ToggleAll app = snd (toggleAllExpenses toLowerCase_ascii app)"
| "perform (DeleteRow confirm expense) app = snd (deleteExpense confirm expense app)"
| "perform (BulkDelete confirm) app = snd (deleteSelectedExpenses confirm app)"
| "perform (ToggleMember userId) app = snd (toggleWorkspaceMember userId app)"
| "perform ToggleEditSelf app = app\<lparr>isEditingSelf := \<not> isEditingSelf app\<rparr>"
| "perform (SaveSelfProfile form) app = snd (handleSaveSelfProfile form app)"
| "perform (UpdateTheme color) app = snd (handleUpdateTheme color app)"
| "perform (DeleteUser confirm userId) app = snd (handleDeleteUser confirm userId app)"
| "perform (LoginAs user) app = app\<lparr>loginStep := Some (loginStepOf user)\<rparr>"
| "perform (ChangeCurrency v) app = snd (onCurrencyChange v app)"
| "perform (ChangeBudget v) app = snd (onBudgetChange parseDecimal v app)"

text \<open>
  Running a list of actions from a state: \<open>None\<close> as soon as an action is not available in
  the state it meets.
\<close>

fun run :: "Action list \<Rightarrow> App \<Rightarrow> App option" where
  "run [] app = Some app"
| "run (a # as) app = (if available a app then run as (perform a app) else None)"

section \<open>Sample data\<close>

text \<open>Concrete inputs on which the theorems below are evaluated.\<close>

definition bobForm :: SignUpForm where
  "bobForm =
     \<lparr>su_name = ''Bob'', su_email = ''bob@example.com'', su_password = ''hunter2'',
      su_confirmPassword = ''hunter2''\<rparr>"

definition sampleExpense :: "string \<Rightarrow> real \<Rightarrow> string \<Rightarrow> Expense" where
  "sampleExpense i a w =
     \<lparr>e_id = i, e_amount = a, e_description = ''Lunch'', e_category = FOOD,
      e_date = ''2024-01-15'', e_userId = ''u1'', e_userName = ''System Admin'',
      e_userAvatar = ''https://picsum.photos/seed/admin/120'', e_workspaceId = w\<rparr>"

definition distinctAmounts :: "Expense list" where
  "distinctAmounts =
     [sampleExpense ''a'' 30 ''w1'', sampleExpense ''b'' 10 ''w1'', sampleExpense ''c'' 20 ''w1'']"

definition tiedAmounts :: "Expense list" where
  "tiedAmounts =
     [sampleExpense ''a'' 30 ''w1'', sampleExpense ''b'' 10 ''w1'', sampleExpense ''c'' 30 ''w1'',
      sampleExpense ''d'' 10 ''w1'']"

definition memberLists :: "App \<Rightarrow> User list list" where
  "memberLists app = map w_users (workspaces (state app))"

definition budgets :: "App \<Rightarrow> real list" where
  "budgets app = map w_budget (workspaces (state app))"

text \<open>
  Bob registers, the administrator signs in, leaves the workspace (Bob remains) and then
  deletes Bob from the directory.
\<close>

definition emptyWorkspaceRun :: "Action list" where
  "emptyWorkspaceRun =
     [ShowSignUp, SubmitSignUp 1700000000000 bobForm, Logout, PickProfile (hd DEFAULT_USERS),
      SubmitSignIn ''admin'', Navigate workspace, ToggleMember ''u1'', Navigate settings,
      DeleteUser True ''u-1700000000000'']"

text \<open>
  Bob registers and records an expense; the administrator signs in, leaves the workspace
  and ticks Bob's expense in the transaction table.
\<close>

definition outsiderSelectsRun :: "Action list" where
  "outsiderSelectsRun =
     [ShowSignUp, SubmitSignUp 1700000000000 bobForm, Navigate transactions, OpenAdd,
      SetDescription ''Lunch'', SetAmount ''12.50'', ConfirmPurchase 1700000060000 ''2023-11-14'',
      Logout, PickProfile (hd DEFAULT_USERS), SubmitSignIn ''admin'', Navigate workspace,
      ToggleMember ''u1'', Navigate transactions, ToggleSelection ''1700000060000'']"

text \<open>Bob, a Member, right after registering; the administrator right after signing in.\<close>

definition memberSession :: App where
  "memberSession =
     snd (handleSignUp toLowerCase_ascii 1700000000000 bobForm (initialApp\<lparr>authMode := signup\<rparr>))"

definition adminSession :: App where
  "adminSession =
     snd (handleSignIn ''admin'' (initialApp\<lparr>loginStep := Some (loginStepOf (hd DEFAULT_USERS))\<rparr>))"

text \<open>The administrator with Bob in the directory and in the workspace.\<close>

definition adminWithBob :: App where
  "adminWithBob =
     snd (handleSignIn ''admin''
            (snd (handleLogout memberSession)\<lparr>loginStep := Some (loginStepOf (hd DEFAULT_USERS))\<rparr>))"

text \<open>The spec's names for the rejections, as the messages the code shows.\<close>

definition SelfDeletionForbidden :: Effect where
  "SelfDeletionForbidden = Alert ''Safety Lock: You cannot delete your own active profile.''"

definition LastMemberProtection :: Effect where
  "LastMemberProtection =
     Alert ''Action Blocked: A workspace requires at least one participating member.''"

definition PermissionDenied :: Effect where
  "PermissionDenied =
     Alert ''Permission Error: You are not a registered member of this workspace.''"

definition DuplicateEmail :: "string option" where
  "DuplicateEmail = Some ''This email is already registered.''"

text \<open>
  The administrator signs in, opens the expense dialog and types a description and the
  amount \<open>-5\<close>; \<open>negativeDraft\<close> is the state this ends in.
\<close>

definition negativeAmountRun :: "Action list" where
  "negativeAmountRun =
     [PickProfile (hd DEFAULT_USERS), SubmitSignIn ''admin'', Navigate transactions, OpenAdd,
      SetDescription ''Refund'', SetAmount ''-5'']"

definition negativeDraft :: App where
  "negativeDraft =
     adminSession\<lparr>state := (state adminSession)\<lparr>activeView := transactions\<rparr>,
                  isAdding := True,
                  newExpense := \<lparr>ne_description = ''Refund'', ne_amount = ''-5'',
                                 ne_category = OTHER, ne_aiInput = []\<rparr>\<rparr>"

definition profileEdit :: ProfileForm where
  "profileEdit =
     \<lparr>pf_name = ''Root'', pf_email = ''root@smartspend.com'',
      pf_avatar = ''https://picsum.photos/seed/root/120''\<rparr>"

text \<open>The administrator's session with one expense of the administrator and one of Bob.\<close>

definition sharedLedger :: App where
  "sharedLedger =
     adminWithBob\<lparr>state := (state adminWithBob)\<lparr>expenses :=
        [sampleExpense ''1'' 30 ''w1'',
         (sampleExpense ''2'' 10 ''w1'')\<lparr>e_userId := ''u-1700000000000'', e_userName := ''Bob''\<rparr>]\<rparr>\<rparr>"

text \<open>The administrator's session on the settings view.\<close>

definition settingsSession :: App where
  "settingsSession = adminSession\<lparr>state := (state adminSession)\<lparr>activeView := settings\<rparr>\<rparr>"

text \<open>The administrator signs in and types 0 into the budget field.\<close>

definition zeroBudgetRun :: "Action list" where
  "zeroBudgetRun =
     [PickProfile (hd DEFAULT_USERS), SubmitSignIn ''admin'', Navigate settings,
      ChangeBudget ''0'']"







text \<open>A registration with the administrator's address in another letter case.\<close>

definition shoutingForm :: SignUpForm where
  "shoutingForm =
     \<lparr>su_name = ''Eve'', su_email = ''Admin@SmartSpend.COM'', su_password = ''x'',
      su_confirmPassword = ''x''\<rparr>"

text \<open>
  Two workspaces, the first one current, and a ledger whose only expense belongs to the
  second.
\<close>

definition foreignLedger :: App where
  "foreignLedger =
     adminSession\<lparr>state := (state adminSession)\<lparr>
        workspaces := [DEFAULT_WORKSPACE, DEFAULT_WORKSPACE\<lparr>w_id := ''w2'', w_name := ''Side''\<rparr>],
        expenses := [sampleExpense ''9'' 5 ''w2'']\<rparr>\<rparr>"

section \<open>Evaluation\<close>

lemma toString_nat_signup [simp]: "toString_nat 1700000000000 = ''1700000000000''"
  by (simp add: toString_nat.simps digit_char_def)

lemma toString_nat_purchase [simp]: "toString_nat 1700000060000 = ''1700000060000''"
  by (simp add: toString_nat.simps digit_char_def)

lemmas handler_defs =
  handleSignUp_def handleSignIn_def handleLogout_def toggleWorkspaceMember_def
  handleDeleteUser_def handleAddExpense_def deleteExpense_def deleteSelectedExpenses_def
  toggleExpenseSelection_def onBudgetChange_def addToFirstWorkspace_def
  canModifyTransaction_def emptyNewExpense_def

lemmas screen_defs =
  authScreen_def mainScreen_def viewShown_def rendered_def currentWorkspace_def
  activeUser_def isAdmin_def

lemmas query_defs =
  filteredExpenses_def workspaceExpenses_def sortBy_def compareExpenses_def
  matchesSearch_def matchesCategory_def

lemmas string_defs =
  toLowerCase_ascii_def toLowerCase_char_def isDecimal_def isUnsignedDecimal_def isDigit_def
  parseDecimal_def unsignedDecimal_def digits_value_def

lemmas data_defs =
  initialApp_def initialState_def DEFAULT_USERS_def DEFAULT_WORKSPACE_def DEFAULT_THEME_def
  bobForm_def loginStepOf_def sampleExpense_def

section \<open>Sorting (claim C7)\<close>

lemma js_less_irrefl: "\<not> js_less v v"
  by (cases v) auto

lemma js_less_field_total:
  "field k a \<noteq> field k b \<Longrightarrow>
   js_less (field k a) (field k b) \<or> js_less (field k b) (field k a)"
  by (cases k) auto

lemma compare_eq_fields:
  "field (key cfg) a = field (key cfg) b \<Longrightarrow> compareExpenses cfg a b = 0"
  by (simp add: compareExpenses_def js_less_irrefl)

lemma compare_zero_iff:
  "(compareExpenses cfg a b = 0) = (field (key cfg) a = field (key cfg) b)"
  using js_less_field_total [of "key cfg" a b]
  by (auto simp: compareExpenses_def Let_def js_less_irrefl split: if_splits)

text \<open>
  Inserting keeps, for every key value, the elements with that value in their order,
  provided elements with equal keys do not compare greater.
\<close>

lemma filter_insert_sorted:
  assumes "\<And>a b. f a = f b \<Longrightarrow> cmp a b \<le> 0"
  shows "filter (\<lambda>y. f y = v) (insert_sorted cmp x ys) = filter (\<lambda>y. f y = v) (x # ys)"
  using assms by (induction ys) auto

lemma filter_array_sort:
  assumes "\<And>a b. f a = f b \<Longrightarrow> cmp a b \<le> 0"
  shows "filter (\<lambda>y. f y = v) (array_sort cmp xs) = filter (\<lambda>y. f y = v) xs"
proof (induction xs)
  case Nil
  show ?case by simp
next
  case (Cons x xs)
  have "filter (\<lambda>y. f y = v) (array_sort cmp (x # xs))
        = filter (\<lambda>y. f y = v) (x # array_sort cmp xs)"
    using filter_insert_sorted [of f cmp v x "array_sort cmp xs"] assms by simp
  with Cons.IH show ?case by simp
qed

lemma sortBy_stable:
  "filter (\<lambda>e. field k e = v) (sortBy xs k d) = filter (\<lambda>e. field k e = v) xs"
  unfolding sortBy_def
  by (rule filter_array_sort) (simp add: compare_eq_fields)

text \<open>On the amount, the two directions are the library's insertion sort by a key.\<close>

lemma insert_sorted_asc:
  "insert_sorted (compareExpenses \<lparr>key = K_amount, direction = asc\<rparr>) x ys
   = insort_key e_amount x ys"
  by (induction ys) (auto simp: compareExpenses_def)

lemma sortBy_asc: "sortBy xs K_amount asc = sort_key e_amount xs"
  unfolding sortBy_def by (induction xs) (auto simp: insert_sorted_asc sort_key_def)

lemma insert_sorted_desc:
  "insert_sorted (compareExpenses \<lparr>key = K_amount, direction = desc\<rparr>) x ys
   = insort_key (\<lambda>e. - e_amount e) x ys"
  by (induction ys) (auto simp: compareExpenses_def)

lemma sortBy_desc: "sortBy xs K_amount desc = sort_key (\<lambda>e. - e_amount e) xs"
  unfolding sortBy_def by (induction xs) (auto simp: insert_sorted_desc sort_key_def)

lemma sorted_rev_desc: "sorted (map e_amount (rev (sortBy xs K_amount desc)))"
proof -
  have "sorted (map (\<lambda>e. - e_amount e) (sortBy xs K_amount desc))"
    by (simp add: sortBy_desc)
  then have "sorted_wrt (\<lambda>a b. e_amount b \<le> e_amount a) (sortBy xs K_amount desc)"
    by (simp add: sorted_wrt_map)
  then show ?thesis
    by (simp add: sorted_wrt_map sorted_wrt_rev rev_map [symmetric] del: rev_map)
qed

lemma sortBy_desc_rev_asc:
  assumes "distinct (map e_amount xs)"
  shows "sortBy xs K_amount desc = rev (sortBy xs K_amount asc)"
proof -
  let ?A = "sortBy xs K_amount asc" and ?D = "sortBy xs K_amount desc"
  have inj: "inj_on e_amount (set xs)" and dx: "distinct xs"
    using assms by (simp_all add: distinct_map)
  have sA: "set ?A = set xs" and sD: "set (rev ?D) = set xs"
    by (simp_all add: sortBy_asc sortBy_desc)
  have dA: "distinct (map e_amount ?A)"
    using inj dx by (simp add: distinct_map sortBy_asc)
  have dD: "distinct (map e_amount (rev ?D))"
    using inj dx by (simp add: distinct_map sortBy_desc del: rev_map)
  have "?A = rev ?D"
  proof (rule map_sorted_distinct_set_unique [where f = e_amount])
    show "inj_on e_amount (set ?A \<union> set (rev ?D))" using inj sA sD by simp
    show "sorted (map e_amount ?A)" by (simp add: sortBy_asc)
    show "distinct (map e_amount ?A)" by (rule dA)
    show "sorted (map e_amount (rev ?D))" by (rule sorted_rev_desc)
    show "distinct (map e_amount (rev ?D))" by (rule dD)
    show "set ?A = set (rev ?D)" using sA sD by simp
  qed
  then show ?thesis by simp
qed

lemma sortBy_asc_then_desc:
  assumes "distinct (map e_amount xs)"
  shows "sortBy (sortBy xs K_amount asc) K_amount desc = rev (sortBy xs K_amount asc)"
proof -
  have d: "distinct (map e_amount (sortBy xs K_amount asc))"
    using assms by (simp add: distinct_map sortBy_asc)
  have "sortBy (sortBy xs K_amount asc) K_amount asc = sortBy xs K_amount asc"
    by (simp add: sortBy_asc sort_key_id_if_sorted)
  with sortBy_desc_rev_asc [OF d] show ?thesis by simp
qed

text \<open>
  Claim C7. With pairwise distinct amounts, sorting by amount descending gives the reverse
  of sorting ascending, whether the descending sort starts from the original list or from
  the ascending result. For every key and both directions the sort is stable: two expenses
  compare equal exactly when they have the same value of the key, and the expenses with
  any one value of the key come out in the order they went in.
\<close>

theorem sortBy_reverse_and_stable:
  "(distinct (map e_amount xs) \<longrightarrow>
      sortBy xs K_amount desc = rev (sortBy xs K_amount asc)
      \<and> sortBy (sortBy xs K_amount asc) K_amount desc = rev (sortBy xs K_amount asc))
   \<and> (compareExpenses \<lparr>key = k, direction = d\<rparr> a b = 0) = (field k a = field k b)
   \<and> filter (\<lambda>e. field k e = v) (sortBy xs k d) = filter (\<lambda>e. field k e = v) xs"
  using sortBy_desc_rev_asc [of xs] sortBy_asc_then_desc [of xs]
    compare_zero_iff [of "\<lparr>key = k, direction = d\<rparr>" a b] sortBy_stable [of k v xs d]
  by simp

theorem sortBy_reverse_and_stable_witness:
  "distinct (map e_amount distinctAmounts)
   \<and> map e_id (sortBy distinctAmounts K_amount asc) = [''b'', ''c'', ''a'']
   \<and> sortBy distinctAmounts K_amount desc = rev (sortBy distinctAmounts K_amount asc)
   \<and> sortBy (sortBy distinctAmounts K_amount asc) K_amount desc
       = rev (sortBy distinctAmounts K_amount asc)"
proof -
  have d: "distinct (map e_amount distinctAmounts)"
    by (simp add: distinctAmounts_def sampleExpense_def)
  have a: "map e_id (sortBy distinctAmounts K_amount asc) = [''b'', ''c'', ''a'']"
    by (simp add: distinctAmounts_def sampleExpense_def sortBy_def compareExpenses_def)
  from d a sortBy_reverse_and_stable [of distinctAmounts] show ?thesis by blast
qed

lemma sortBy_ties_example:
  "map e_id (sortBy tiedAmounts K_amount asc) = [''b'', ''d'', ''a'', ''c'']
   \<and> map e_id (sortBy tiedAmounts K_amount desc) = [''a'', ''c'', ''b'', ''d'']"
  by (simp add: tiedAmounts_def sampleExpense_def sortBy_def compareExpenses_def)

section \<open>Bulk deletion (claim C1)\<close>

text \<open>
  Claim C1 (not met by the code). \<open>deleteSelectedExpenses\<close> filters the ledger by the
  selected ids and never consults \<open>canModifyTransaction\<close>, which the single-row
  \<open>deleteExpense\<close> does. In the state reached by \<open>outsiderSelectsRun\<close> the active
  administrator is not a member of the current workspace: the permission helper answers
  false for the one expense, \<open>deleteExpense\<close> refuses it with the permission alert, and
  the bulk action, which the page offers, removes it.
\<close>

theorem deleteSelectedExpenses_unauthorized:
  "(case run outsiderSelectsRun initialApp of
      None \<Rightarrow> False
    | Some app \<Rightarrow>
        map e_id (expenses (state app)) = [''1700000060000'']
        \<and> selectedExpenseIds app = [''1700000060000'']
        \<and> map (canModifyTransaction (activeUser (state app)) (currentWorkspace (state app)))
              (expenses (state app)) = [Some False]
        \<and> map (\<lambda>e. deleteExpense True e app) (expenses (state app))
            = [(PermissionDenied, app)]
        \<and> available (BulkDelete True) app
        \<and> expenses (state (perform (BulkDelete True) app)) = [])"
  by (simp add: outsiderSelectsRun_def PermissionDenied_def handler_defs screen_defs query_defs
      string_defs data_defs Let_def)

text \<open>Whoever is active, the bulk action removes exactly the selected ids.\<close>

lemma deleteSelectedExpenses_expenses:
  "expenses (state (snd (deleteSelectedExpenses True app)))
   = filter (\<lambda>e. e_id e \<notin> set (selectedExpenseIds app)) (expenses (state app))"
  by (simp add: deleteSelectedExpenses_def Let_def)

section \<open>Workspace membership (claim C2)\<close>

text \<open>
  Claim C2 (not met by the code). \<open>toggleWorkspaceMember\<close> refuses to empty the member
  list, with the alert that a workspace requires at least one member, but
  \<open>handleDeleteUser\<close> filters the deleted user out of every member list without that
  test. \<open>emptyWorkspaceRun\<close> is a run of the page from the first start that ends with the
  only workspace having no member.
\<close>

theorem handleDeleteUser_empties_workspace:
  "map_option memberLists (run emptyWorkspaceRun initialApp) = Some [[]]"
  by (simp add: emptyWorkspaceRun_def memberLists_def handler_defs screen_defs string_defs
      data_defs Let_def)

text \<open>What \<open>toggleWorkspaceMember\<close> itself guarantees.\<close>

lemma toggleWorkspaceMember_keeps_nonempty:
  assumes "\<forall>w \<in> set (workspaces (state app)). w_users w \<noteq> []"
  shows "\<forall>w \<in> set (workspaces (state (snd (toggleWorkspaceMember userId app)))). w_users w \<noteq> []"
  using assms
  by (auto simp: toggleWorkspaceMember_def Let_def split: option.splits if_splits)

lemma toggleWorkspaceMember_last_member:
  assumes "isAdmin (state app)"
    and "find (\<lambda>w. w_id w = currentWorkspaceId (state app)) (workspaces (state app)) = Some ws"
    and "find (\<lambda>u. u_id u = userId) (users (state app)) = Some user"
    and "\<forall>m \<in> set (w_users ws). u_id m = userId" and "w_users ws \<noteq> []"
  shows "toggleWorkspaceMember userId app = (LastMemberProtection, app)"
proof -
  have m: "list_ex (\<lambda>u. u_id u = userId) (w_users ws)"
    using assms(4,5) by (cases "w_users ws") (auto simp: list_ex_iff)
  have f: "filter (\<lambda>u. u_id u \<noteq> userId) (w_users ws) = []"
    using assms(4) by (simp add: filter_empty_conv)
  show ?thesis
    using assms(1,2,3) m f
    by (simp add: toggleWorkspaceMember_def LastMemberProtection_def Let_def)
qed

lemma toggleWorkspaceMember_add:
  assumes "isAdmin (state app)"
    and "find (\<lambda>w. w_id w = currentWorkspaceId (state app)) (workspaces (state app)) = Some ws"
    and "find (\<lambda>u. u_id u = userId) (users (state app)) = Some user"
    and "\<not> list_ex (\<lambda>u. u_id u = userId) (w_users ws)"
  shows "workspaces (state (snd (toggleWorkspaceMember userId app)))
         = map (\<lambda>w. if w_id w = currentWorkspaceId (state app)
                     then w\<lparr>w_users := w_users ws @ [user]\<rparr> else w)
               (workspaces (state app))"
  using assms by (simp add: toggleWorkspaceMember_def Let_def)

lemma toggleWorkspaceMember_remove:
  assumes "isAdmin (state app)"
    and "find (\<lambda>w. w_id w = currentWorkspaceId (state app)) (workspaces (state app)) = Some ws"
    and "find (\<lambda>u. u_id u = userId) (users (state app)) = Some user"
    and "list_ex (\<lambda>u. u_id u = userId) (w_users ws)"
    and "list_ex (\<lambda>u. u_id u \<noteq> userId) (w_users ws)"
  shows "workspaces (state (snd (toggleWorkspaceMember userId app)))
         = map (\<lambda>w. if w_id w = currentWorkspaceId (state app)
                     then w\<lparr>w_users := filter (\<lambda>u. u_id u \<noteq> userId) (w_users ws)\<rparr> else w)
               (workspaces (state app))"
proof -
  have "filter (\<lambda>u. u_id u \<noteq> userId) (w_users ws) \<noteq> []"
    using assms(5) by (auto simp: list_ex_iff filter_empty_conv)
  then show ?thesis
    using assms(1-4) by (simp add: toggleWorkspaceMember_def Let_def)
qed

section \<open>Deleting a user (claim C3)\<close>

text \<open>
  Claim C3 as stated fails for a Member: the administrator test comes first and returns
  without a message, so a Member who targets the own profile gets no
  \<open>SelfDeletionForbidden\<close> alert (the state is unchanged all the same).
\<close>

theorem handleDeleteUser_member_counterexample:
  "run [ShowSignUp, SubmitSignUp 1700000000000 bobForm] initialApp = Some memberSession
   \<and> activeUserId (state memberSession) = Some ''u-1700000000000''
   \<and> \<not> isAdmin (state memberSession)
   \<and> fst (handleDeleteUser True ''u-1700000000000'' memberSession) = NoAlert
   \<and> fst (handleDeleteUser True ''u-1700000000000'' memberSession) \<noteq> SelfDeletionForbidden"
  by (simp add: memberSession_def SelfDeletionForbidden_def handler_defs screen_defs
      string_defs data_defs Let_def)

text \<open>
  Claim C3, amended. Deleting the active profile never changes the state; an
  administrator is told \<open>SelfDeletionForbidden\<close>, anyone else is turned away silently by
  the administrator test. For an administrator and another target, an accepted
  confirmation removes every user with the target's id from the directory and from every
  workspace's member list and leaves the expenses as they are; a declined confirmation
  changes nothing.
\<close>

theorem handleDeleteUser_outcomes:
  "(activeUserId (state app) = Some uid \<longrightarrow>
      handleDeleteUser c uid app
      = (if isAdmin (state app) then SelfDeletionForbidden else NoAlert, app))
   \<and> (isAdmin (state app) \<and> activeUserId (state app) \<noteq> Some t \<longrightarrow>
        users (state (snd (handleDeleteUser True t app)))
        = filter (\<lambda>u. u_id u \<noteq> t) (users (state app))
        \<and> map w_users (workspaces (state (snd (handleDeleteUser True t app))))
          = map (\<lambda>ws. filter (\<lambda>u. u_id u \<noteq> t) (w_users ws)) (workspaces (state app))
        \<and> t \<notin> u_id ` set (users (state (snd (handleDeleteUser True t app))))
        \<and> t \<notin> u_id ` (\<Union>ws \<in> set (workspaces (state (snd (handleDeleteUser True t app)))).
                          set (w_users ws))
        \<and> expenses (state (snd (handleDeleteUser True t app))) = expenses (state app)
        \<and> handleDeleteUser False t app = (NoAlert, app))"
  by (auto simp: handleDeleteUser_def SelfDeletionForbidden_def Let_def)

theorem handleDeleteUser_outcomes_witness:
  "activeUserId (state adminWithBob) = Some ''u1''
   \<and> isAdmin (state adminWithBob)
   \<and> activeUserId (state adminWithBob) \<noteq> Some ''u-1700000000000''
   \<and> handleDeleteUser True ''u1'' adminWithBob = (SelfDeletionForbidden, adminWithBob)
   \<and> map u_id (users (state adminWithBob)) = [''u1'', ''u-1700000000000'']
   \<and> map u_id (users (state (snd (handleDeleteUser True ''u-1700000000000'' adminWithBob))))
       = [''u1'']
   \<and> ''u-1700000000000''
       \<notin> u_id ` set (users (state (snd (handleDeleteUser True ''u-1700000000000'' adminWithBob))))"
proof -
  have a: "activeUserId (state adminWithBob) = Some ''u1''"
    by (simp add: adminWithBob_def memberSession_def handler_defs string_defs data_defs Let_def)
  have b: "isAdmin (state adminWithBob)"
    by (simp add: adminWithBob_def memberSession_def handler_defs screen_defs string_defs
        data_defs Let_def)
  have u: "map u_id (users (state adminWithBob)) = [''u1'', ''u-1700000000000'']"
    by (simp add: adminWithBob_def memberSession_def handler_defs string_defs data_defs Let_def)
  have f: "map u_id (filter (\<lambda>u. u_id u \<noteq> ''u-1700000000000'') (users (state adminWithBob)))
           = [''u1'']"
    by (simp add: adminWithBob_def memberSession_def handler_defs string_defs data_defs Let_def)
  from a have c: "activeUserId (state adminWithBob) \<noteq> Some ''u-1700000000000''" by simp
  from handleDeleteUser_outcomes [of adminWithBob "''u1''" True "''u-1700000000000''"] a b c u f
  show ?thesis by auto
qed

section \<open>Editing the own profile (claim C4)\<close>

text \<open>
  Claim C4. When the active user saves a profile edit, the expense list keeps its length
  and order; an expense of that user becomes the same expense with the new name and
  avatar, any other expense is unchanged; in every workspace each member record with the
  user's id is replaced by the updated record and the others are kept.
\<close>

theorem handleSaveSelfProfile_cascade:
  assumes "activeUser (state app) = Some au"
  shows "expenses (state (snd (handleSaveSelfProfile form app)))
         = map (\<lambda>e. if e_userId e = u_id au
                     then e\<lparr>e_userName := pf_name form, e_userAvatar := pf_avatar form\<rparr> else e)
               (expenses (state app))
     \<and> (\<forall>e \<in> set (expenses (state (snd (handleSaveSelfProfile form app)))).
            e_userId e = u_id au \<longrightarrow>
            e_userName e = pf_name form \<and> e_userAvatar e = pf_avatar form)
     \<and> (\<forall>i < length (expenses (state app)).
            e_userId (expenses (state app) ! i) \<noteq> u_id au \<longrightarrow>
            expenses (state (snd (handleSaveSelfProfile form app))) ! i = expenses (state app) ! i)
     \<and> map w_users (workspaces (state (snd (handleSaveSelfProfile form app))))
        = map (\<lambda>ws. map (\<lambda>u. if u_id u = u_id au
                               then au\<lparr>u_name := pf_name form, u_email := pf_email form,
                                       u_avatar := pf_avatar form\<rparr>
                               else u)
                         (w_users ws))
              (workspaces (state app))
     \<and> (\<forall>ws \<in> set (workspaces (state (snd (handleSaveSelfProfile form app)))).
          \<forall>m \<in> set (w_users ws).
            u_id m = u_id au \<longrightarrow>
            m = au\<lparr>u_name := pf_name form, u_email := pf_email form, u_avatar := pf_avatar form\<rparr>)"
  using assms by (auto simp: handleSaveSelfProfile_def Let_def)

theorem handleSaveSelfProfile_cascade_witness:
  "activeUser (state sharedLedger) = Some (hd DEFAULT_USERS)
   \<and> map e_userName (expenses (state sharedLedger)) = [''System Admin'', ''Bob'']
   \<and> map e_userName (expenses (state (snd (handleSaveSelfProfile profileEdit sharedLedger))))
       = [''Root'', ''Bob'']
   \<and> expenses (state (snd (handleSaveSelfProfile profileEdit sharedLedger))) ! 1
       = expenses (state sharedLedger) ! 1"
proof -
  have a: "activeUser (state sharedLedger) = Some (hd DEFAULT_USERS)"
    by (simp add: sharedLedger_def adminWithBob_def memberSession_def handler_defs screen_defs
        string_defs data_defs Let_def)
  have e: "expenses (state sharedLedger)
           = [sampleExpense ''1'' 30 ''w1'',
              (sampleExpense ''2'' 10 ''w1'')\<lparr>e_userId := ''u-1700000000000'',
                                              e_userName := ''Bob''\<rparr>]"
    by (simp add: sharedLedger_def)
  from handleSaveSelfProfile_cascade [OF a, of profileEdit] e
  show ?thesis
    using a by (simp add: sampleExpense_def DEFAULT_USERS_def profileEdit_def)
qed

section \<open>Adding an expense (claim C5)\<close>

text \<open>
  Claim C5 as stated fails: the handler tests that the description and the amount text
  are not empty, not that the amount is positive. The draft \<open>negativeDraft\<close> has the
  amount text \<open>-5\<close>; it is accepted, without a message, and the ledger gets an expense
  of amount \<open>-5\<close>.
\<close>

theorem handleAddExpense_negative_counterexample:
  "run negativeAmountRun initialApp = Some negativeDraft
   \<and> available (ConfirmPurchase 1700000060000 ''2023-11-14'') negativeDraft
   \<and> ne_amount (newExpense negativeDraft) = ''-5''
   \<and> parseDecimal ''-5'' = - 5
   \<and> expenses (state negativeDraft) = []
   \<and> fst (handleAddExpense parseDecimal 1700000060000 ''2023-11-14'' negativeDraft) = NoAlert
   \<and> map e_amount
        (expenses (state (snd (handleAddExpense parseDecimal 1700000060000 ''2023-11-14''
                                 negativeDraft))))
       = [- 5]"
  by (simp add: negativeAmountRun_def negativeDraft_def adminSession_def handler_defs
      screen_defs string_defs data_defs Let_def)

text \<open>
  Claim C5, amended. The handler returns without a message and without any change when
  the description is empty, the amount text is empty or nobody is signed in; it reports
  no validation error and does not look at the sign of the amount. Otherwise the new
  expense, with the amount \<open>parseFloat\<close> reads from the text and the name and avatar of
  the active user as they are now, is put in front of the ledger.
\<close>

theorem handleAddExpense_outcomes:
  "(ne_description (newExpense app) = [] \<or> ne_amount (newExpense app) = []
      \<or> activeUser (state app) = None \<longrightarrow>
      handleAddExpense pf now today app = (NoAlert, app))
   \<and> (ne_description (newExpense app) \<noteq> [] \<and> ne_amount (newExpense app) \<noteq> []
        \<and> activeUser (state app) = Some au \<and> currentWorkspace (state app) = Some cw \<longrightarrow>
        fst (handleAddExpense pf now today app) = NoAlert
        \<and> expenses (state (snd (handleAddExpense pf now today app)))
          = \<lparr>e_id = toString_nat now, e_amount = pf (ne_amount (newExpense app)),
             e_description = ne_description (newExpense app),
             e_category = ne_category (newExpense app), e_date = today, e_userId = u_id au,
             e_userName = u_name au, e_userAvatar = u_avatar au, e_workspaceId = w_id cw\<rparr>
            # expenses (state app))"
  by (auto simp: handleAddExpense_def Let_def)

theorem handleAddExpense_outcomes_witness:
  "ne_description (newExpense adminSession) = []
   \<and> handleAddExpense parseDecimal 1700000060000 ''2023-11-14'' adminSession
       = (NoAlert, adminSession)
   \<and> ne_description (newExpense negativeDraft) \<noteq> []
   \<and> ne_amount (newExpense negativeDraft) \<noteq> []
   \<and> activeUser (state negativeDraft) = Some (hd DEFAULT_USERS)
   \<and> currentWorkspace (state negativeDraft) = Some DEFAULT_WORKSPACE
   \<and> map e_userName
        (expenses (state (snd (handleAddExpense parseDecimal 1700000060000 ''2023-11-14''
                                 negativeDraft))))
       = [''System Admin'']"
proof -
  have a: "ne_description (newExpense adminSession) = []"
    by (simp add: adminSession_def handler_defs data_defs)
  have b: "ne_description (newExpense negativeDraft) \<noteq> []"
      "ne_amount (newExpense negativeDraft) \<noteq> []"
    by (simp_all add: negativeDraft_def)
  have c: "activeUser (state negativeDraft) = Some (hd DEFAULT_USERS)"
    by (simp add: negativeDraft_def adminSession_def handler_defs screen_defs data_defs)
  have d: "currentWorkspace (state negativeDraft) = Some DEFAULT_WORKSPACE"
    by (simp add: negativeDraft_def adminSession_def handler_defs screen_defs data_defs)
  have e: "expenses (state negativeDraft) = []"
    by (simp add: negativeDraft_def adminSession_def handler_defs data_defs)
  from handleAddExpense_outcomes
         [where app = adminSession and pf = parseDecimal and now = 1700000060000
            and today = "''2023-11-14''"]
       handleAddExpense_outcomes
         [where app = negativeDraft and au = "hd DEFAULT_USERS" and cw = DEFAULT_WORKSPACE
            and pf = parseDecimal and now = 1700000060000 and today = "''2023-11-14''"]
       a b c d e
  show ?thesis by (simp add: DEFAULT_USERS_def)
qed

section \<open>Workspace settings (claim C6)\<close>

lemma find_map_same_id:
  "find (\<lambda>w. w_id w = i) (map (\<lambda>w. if w_id w = j then w\<lparr>w_budget := b\<rparr> else w) wss)
   = map_option (\<lambda>w. if w_id w = j then w\<lparr>w_budget := b\<rparr> else w)
       (find (\<lambda>w. w_id w = i) wss)"
  by (induction wss) auto

lemma currentWorkspace_after_budget:
  assumes "currentWorkspace s = Some cw"
  shows "currentWorkspace
           (s\<lparr>workspaces := map (\<lambda>w. if w_id w = w_id cw then w\<lparr>w_budget := b\<rparr> else w)
                                 (workspaces s)\<rparr>)
         = Some (cw\<lparr>w_budget := b\<rparr>)"
proof (cases "find (\<lambda>w. w_id w = currentWorkspaceId s) (workspaces s)")
  case (Some w)
  with assms have "w = cw" by (simp add: currentWorkspace_def)
  with Some show ?thesis by (simp add: currentWorkspace_def find_map_same_id)
next
  case None
  with assms obtain rest where ws: "workspaces s = cw # rest"
    by (cases "workspaces s") (simp_all add: currentWorkspace_def)
  have "find (\<lambda>w. w_id w = currentWorkspaceId s)
          (map (\<lambda>w. if w_id w = w_id cw then w\<lparr>w_budget := b\<rparr> else w) (workspaces s))
        = None"
    using None by (simp add: find_map_same_id)
  with ws show ?thesis
    by (simp add: currentWorkspace_def)
qed

lemma workspaceExpenses_after_budget:
  assumes "currentWorkspace (state app) = Some cw"
  shows "workspaceExpenses (state (snd (onBudgetChange pf v app)))
         = Some (filter (\<lambda>e. e_workspaceId e = w_id cw) (expenses (state app)))"
  using assms currentWorkspace_after_budget [OF assms, of "pf v"]
  by (simp add: onBudgetChange_def workspaceExpenses_def Let_def)

text \<open>
  Claim C6 as stated fails: nothing checks the budget. The run \<open>zeroBudgetRun\<close> of the
  page (the administrator signs in and types 0 into the budget field) ends with the
  budget of the only workspace, the current one, at 0, where the spending percentage
  divides by zero.
\<close>

theorem budget_zero_counterexample:
  "map_option budgets (run zeroBudgetRun initialApp) = Some [0]
   \<and> map_option (\<lambda>app. currentWorkspace (state app)) (run zeroBudgetRun initialApp)
       = Some (Some (DEFAULT_WORKSPACE\<lparr>w_budget := 0\<rparr>))
   \<and> map_option (\<lambda>app. workspaceExpenses (state app)) (run zeroBudgetRun initialApp)
       = Some (Some [])
   \<and> spendingPercentage (DEFAULT_WORKSPACE\<lparr>w_budget := 0\<rparr>) [] = None"
  by (simp add: zeroBudgetRun_def budgets_def spendingPercentage_def workspaceExpenses_def
      handler_defs screen_defs string_defs data_defs Let_def)

text \<open>
  Claim C6, amended. The budget field is on the page for an administrator only. Its
  handler shows no message and stores what \<open>parseFloat\<close> reads from the typed text as the
  budget of the current workspace, whatever the number, zero and negative numbers
  included; workspaces with another id are kept. When the number read is zero, the
  spending percentage of the state the handler leaves, computed from the current
  workspace and its expenses, is a division by zero: its result is not a finite number.
\<close>

theorem onBudgetChange_unchecked:
  assumes "currentWorkspace (state app) = Some cw"
  shows "(available (ChangeBudget v) app \<longrightarrow> isAdmin (state app))
     \<and> fst (onBudgetChange pf v app) = NoAlert
     \<and> currentWorkspace (state (snd (onBudgetChange pf v app))) = Some (cw\<lparr>w_budget := pf v\<rparr>)
     \<and> workspaces (state (snd (onBudgetChange pf v app)))
        = map (\<lambda>w. if w_id w = w_id cw then w\<lparr>w_budget := pf v\<rparr> else w) (workspaces (state app))
     \<and> (pf v = 0 \<longrightarrow>
          (case (currentWorkspace (state (snd (onBudgetChange pf v app))),
                 workspaceExpenses (state (snd (onBudgetChange pf v app)))) of
             (Some cw', Some wes) \<Rightarrow> spendingPercentage cw' wes = None
           | _ \<Rightarrow> False))"
  using assms currentWorkspace_after_budget [OF assms, of "pf v"]
    workspaceExpenses_after_budget [OF assms, of pf v]
  by (simp add: onBudgetChange_def spendingPercentage_def Let_def)

theorem onBudgetChange_unchecked_witness:
  "currentWorkspace (state settingsSession) = Some DEFAULT_WORKSPACE
   \<and> available (ChangeBudget ''0'') settingsSession
   \<and> isAdmin (state settingsSession)
   \<and> parseDecimal ''0'' = 0
   \<and> currentWorkspace (state (snd (onBudgetChange parseDecimal ''0'' settingsSession)))
       = Some (DEFAULT_WORKSPACE\<lparr>w_budget := 0\<rparr>)
   \<and> workspaceExpenses (state (snd (onBudgetChange parseDecimal ''0'' settingsSession)))
       = Some []
   \<and> spendingPercentage (DEFAULT_WORKSPACE\<lparr>w_budget := 0\<rparr>) [] = None"
proof -
  have a: "currentWorkspace (state settingsSession) = Some DEFAULT_WORKSPACE"
    by (simp add: settingsSession_def adminSession_def handler_defs screen_defs data_defs)
  have b: "parseDecimal ''0'' = 0"
    by (simp add: string_defs)
  have c: "available (ChangeBudget ''0'') settingsSession"
    by (simp add: settingsSession_def adminSession_def handler_defs screen_defs string_defs
        data_defs)
  have x: "expenses (state settingsSession) = []"
    by (simp add: settingsSession_def adminSession_def handler_defs data_defs)
  have e: "workspaceExpenses (state (snd (onBudgetChange parseDecimal ''0'' settingsSession)))
           = Some []"
    using workspaceExpenses_after_budget [OF a, of parseDecimal "''0''"] x by simp
  from onBudgetChange_unchecked [OF a, of "''0''" parseDecimal] a b c e
  show ?thesis by (simp split: option.splits)
qed

section \<open>Registration and sign-in (claims C8 and C9)\<close>






text \<open>
  Claim C9. When some user of the directory has the requested address up to letter case,
  that is, when the runtime's \<open>toLowerCase\<close>, whatever function it is, gives the same text
  for both, the registration is refused with the duplicate-address message and the
  persisted state, the directory in it, is unchanged.
\<close>

theorem handleSignUp_duplicate_email:
  assumes "u \<in> set (users (state app))"
    and "toLowerCase (u_email u) = toLowerCase (su_email form)"
  shows "handleSignUp toLowerCase now form app = (NoAlert, app\<lparr>authError := DuplicateEmail\<rparr>)
     \<and> state (snd (handleSignUp toLowerCase now form app)) = state app
     \<and> users (state (snd (handleSignUp toLowerCase now form app))) = users (state app)"
proof -
  have "list_ex (\<lambda>u. toLowerCase (u_email u) = toLowerCase (su_email form)) (users (state app))"
    using assms by (auto simp: list_ex_iff)
  then show ?thesis
    by (simp add: handleSignUp_def DuplicateEmail_def Let_def)
qed

theorem handleSignUp_duplicate_email_witness:
  "hd DEFAULT_USERS \<in> set (users (state initialApp))
   \<and> u_email (hd DEFAULT_USERS) \<noteq> su_email shoutingForm
   \<and> toLowerCase_ascii (u_email (hd DEFAULT_USERS)) = toLowerCase_ascii (su_email shoutingForm)
   \<and> handleSignUp toLowerCase_ascii 1700000000000 shoutingForm initialApp
       = (NoAlert, initialApp\<lparr>authError := DuplicateEmail\<rparr>)
   \<and> users (state (snd (handleSignUp toLowerCase_ascii 1700000000000 shoutingForm initialApp)))
       = users (state initialApp)"
proof -
  have a: "hd DEFAULT_USERS \<in> set (users (state initialApp))"
    by (simp add: data_defs)
  have b: "toLowerCase_ascii (u_email (hd DEFAULT_USERS)) = toLowerCase_ascii (su_email shoutingForm)"
    by (simp add: shoutingForm_def string_defs data_defs)
  have c: "u_email (hd DEFAULT_USERS) \<noteq> su_email shoutingForm"
    by (simp add: shoutingForm_def data_defs)
  from handleSignUp_duplicate_email
         [where toLowerCase = toLowerCase_ascii and u = "hd DEFAULT_USERS"
            and form = shoutingForm and app = initialApp and now = 1700000000000, OF a b]
       a b c
  show ?thesis by simp
qed

section \<open>The permission helper (claim C10)\<close>

lemma list_ex_id_image: "list_ex (\<lambda>m. u_id m = i) xs = (i \<in> u_id ` set xs)"
  by (induction xs) auto

text \<open>
  Claim C10. \<open>canModifyTransaction\<close> gives the same answer for any two expenses: with a
  current workspace it says whether the active user's id is among the members' ids.
  So when the active user is a member of the current workspace, \<open>deleteExpense\<close> (the
  confirmation accepted) removes from the ledger every expense with the id of the one it
  is given, whatever workspace that expense belongs to.
\<close>

theorem canModifyTransaction_ignores_expense:
  "canModifyTransaction au cw e1 = canModifyTransaction au cw e2
   \<and> canModifyTransaction au (Some w) e1
     = Some (case au of None \<Rightarrow> False | Some u \<Rightarrow> u_id u \<in> u_id ` set (w_users w))
   \<and> (activeUser (state app) = Some u \<and> currentWorkspace (state app) = Some w
        \<and> u_id u \<in> u_id ` set (w_users w) \<longrightarrow>
        fst (deleteExpense True e app) = NoAlert
        \<and> expenses (state (snd (deleteExpense True e app)))
          = filter (\<lambda>x. e_id x \<noteq> e_id e) (expenses (state app))
        \<and> e \<notin> set (expenses (state (snd (deleteExpense True e app)))))"
proof (intro conjI impI)
  show "canModifyTransaction au cw e1 = canModifyTransaction au cw e2"
    by (simp add: canModifyTransaction_def)
  show "canModifyTransaction au (Some w) e1
        = Some (case au of None \<Rightarrow> False | Some u \<Rightarrow> u_id u \<in> u_id ` set (w_users w))"
    by (cases au) (simp_all add: canModifyTransaction_def list_ex_id_image)
next
  assume h: "activeUser (state app) = Some u \<and> currentWorkspace (state app) = Some w
             \<and> u_id u \<in> u_id ` set (w_users w)"
  then have "list_ex (\<lambda>m. u_id m = u_id u) (w_users w)"
    by (auto simp: list_ex_iff)
  with h have del: "deleteExpense True e app
      = (NoAlert,
         app\<lparr>state := (state app)\<lparr>expenses :=
                 filter (\<lambda>x. e_id x \<noteq> e_id e) (expenses (state app))\<rparr>,
             selectedExpenseIds := filter (\<lambda>i. i \<noteq> e_id e) (selectedExpenseIds app)\<rparr>)"
    by (simp add: deleteExpense_def canModifyTransaction_def Let_def)
  show "fst (deleteExpense True e app) = NoAlert"
    by (simp add: del)
  show "expenses (state (snd (deleteExpense True e app)))
        = filter (\<lambda>x. e_id x \<noteq> e_id e) (expenses (state app))"
    by (simp add: del)
  then show "e \<notin> set (expenses (state (snd (deleteExpense True e app))))"
    by simp
qed

theorem canModifyTransaction_ignores_expense_witness:
  "activeUser (state foreignLedger) = Some (hd DEFAULT_USERS)
   \<and> currentWorkspace (state foreignLedger) = Some DEFAULT_WORKSPACE
   \<and> u_id (hd DEFAULT_USERS) \<in> u_id ` set (w_users DEFAULT_WORKSPACE)
   \<and> expenses (state foreignLedger) = [sampleExpense ''9'' 5 ''w2'']
   \<and> e_workspaceId (sampleExpense ''9'' 5 ''w2'') \<noteq> w_id DEFAULT_WORKSPACE
   \<and> expenses (state (snd (deleteExpense True (sampleExpense ''9'' 5 ''w2'') foreignLedger))) = []"
proof -
  have a: "activeUser (state foreignLedger) = Some (hd DEFAULT_USERS)"
    by (simp add: foreignLedger_def adminSession_def handler_defs screen_defs data_defs)
  have b: "currentWorkspace (state foreignLedger) = Some DEFAULT_WORKSPACE"
    by (simp add: foreignLedger_def adminSession_def handler_defs screen_defs data_defs)
  have c: "u_id (hd DEFAULT_USERS) \<in> u_id ` set (w_users DEFAULT_WORKSPACE)"
    by (simp add: data_defs)
  have d: "expenses (state foreignLedger) = [sampleExpense ''9'' 5 ''w2'']"
    by (simp add: foreignLedger_def)
  have e: "e_workspaceId (sampleExpense ''9'' 5 ''w2'') \<noteq> w_id DEFAULT_WORKSPACE"
    by (simp add: data_defs)
  from canModifyTransaction_ignores_expense
         [where app = foreignLedger and u = "hd DEFAULT_USERS" and w = DEFAULT_WORKSPACE
            and e = "sampleExpense ''9'' 5 ''w2''"]
       a b c d e
  show ?thesis by simp
qed

end
